theory Spec2Isabelle
  imports Complex_Main
begin

section \<open>Errors\<close>

text \<open>
  The Python exceptions that the modelled functions raise, as values.  A function that
  can raise returns \<open>error + 'a\<close>, with \<open>Inl\<close> the exception.
\<close>

datatype error =
    ValueError string
  | AssertionError
  | IndexError
  | KeyError int

section \<open>Boolean dot product and commutation of symplectic Pauli vectors\<close>

text \<open>
  \<open>np.logical_and\<close> on two one-dimensional arrays: elementwise conjunction, with numpy's
  broadcasting rule (an array of length 1 is stretched to the other length) and a
  ValueError when the lengths cannot be broadcast.
\<close>

definition logical_and :: "bool list \<Rightarrow> bool list \<Rightarrow> error + bool list" where
  "logical_and x y =
     (if length x = length y then Inr (map2 (\<lambda>a b. a \<and> b) x y)
      else if length x = 1 then Inr (map (\<lambda>b. hd x \<and> b) y)
      else if length y = 1 then Inr (map (\<lambda>a. a \<and> hd y) x)
      else Inl (ValueError ''operands could not be broadcast together''))"

text \<open>\<open>np.logical_xor\<close> on two booleans.\<close>

definition logical_xor :: "bool \<Rightarrow> bool \<Rightarrow> bool" where
  "logical_xor a b = (a \<noteq> b)"

text \<open>The loop \<open>for i in array_and[1:]: ans = np.logical_xor(ans, i)\<close> of \<open>_bool_dot\<close>.\<close>

fun xor_loop :: "bool \<Rightarrow> bool list \<Rightarrow> bool" where
  "xor_loop ans [] = ans"
| "xor_loop ans (i # rest) = xor_loop (logical_xor ans i) rest"

text \<open>
  \<open>_bool_dot(x, y)\<close>: \<open>array_and[0]\<close> raises IndexError on an empty array.
\<close>

definition bool_dot :: "bool list \<Rightarrow> bool list \<Rightarrow> error + bool" where
  "bool_dot x y =
     (case logical_and x y of
        Inl e \<Rightarrow> Inl e
      | Inr array_and \<Rightarrow>
          (case array_and of
             [] \<Rightarrow> Inl IndexError
           | ans # rest \<Rightarrow> Inr (xor_loop ans rest)))"

text \<open>
  \<open>commutes(stab_1, stab_2)\<close>: the slices \<open>stab[:n_qubits]\<close> and \<open>stab[n_qubits:]\<close> are
  \<open>take\<close> and \<open>drop\<close>; \<open>comm1\<close> is computed before \<open>comm2\<close>.
\<close>

definition commutes :: "bool list \<Rightarrow> bool list \<Rightarrow> error + bool" where
  "commutes stab_1 stab_2 =
     (let n_qubits = length stab_1 div 2 in
      case bool_dot (take n_qubits stab_1) (drop n_qubits stab_2) of
        Inl e \<Rightarrow> Inl e
      | Inr comm1 \<Rightarrow>
          (case bool_dot (drop n_qubits stab_1) (take n_qubits stab_2) of
             Inl e \<Rightarrow> Inl e
           | Inr comm2 \<Rightarrow> Inr (\<not> (comm1 \<noteq> comm2))))"



section \<open>Tableau comparison\<close>

text \<open>
  A tableau is a two-dimensional boolean array, given as the list of its rows.  Reading
  row \<open>i\<close> of a tableau with fewer rows raises IndexError.
\<close>

type_synonym tableau = "bool list list"

definition row :: "tableau \<Rightarrow> nat \<Rightarrow> error + bool list" where
  "row t i = (if i < length t then Inr (t ! i) else Inl IndexError)"

definition shape :: "tableau \<Rightarrow> nat \<times> nat" where
  "shape t = (case t of [] \<Rightarrow> (0, 0) | r # _ \<Rightarrow> (length t, length r))"

text \<open>
  \<open>check_tableau_entries_commute\<close>: the inner loop \<open>for j in range(i, n_qubits)\<close> and the
  outer loop \<open>for i in range(n_qubits)\<close>.  A loop yields \<open>Inr False\<close> when the function
  returns False from inside it and \<open>Inr True\<close> when it runs to its end.
\<close>

fun commute_inner :: "tableau \<Rightarrow> tableau \<Rightarrow> nat \<Rightarrow> nat list \<Rightarrow> error + bool" where
  "commute_inner tableau_1 tableau_2 i [] = Inr True"
| "commute_inner tableau_1 tableau_2 i (j # js) =
     (case row tableau_1 i of
        Inl e \<Rightarrow> Inl e
      | Inr r1 \<Rightarrow>
          (case row tableau_2 j of
             Inl e \<Rightarrow> Inl e
           | Inr r2 \<Rightarrow>
               (case commutes r1 r2 of
                  Inl e \<Rightarrow> Inl e
                | Inr c \<Rightarrow> if \<not> c then Inr False else commute_inner tableau_1 tableau_2 i js)))"

fun commute_outer :: "tableau \<Rightarrow> tableau \<Rightarrow> nat \<Rightarrow> nat list \<Rightarrow> error + bool" where
  "commute_outer tableau_1 tableau_2 n_qubits [] = Inr True"
| "commute_outer tableau_1 tableau_2 n_qubits (i # is) =
     (case commute_inner tableau_1 tableau_2 i [i..<n_qubits] of
        Inl e \<Rightarrow> Inl e
      | Inr finished \<Rightarrow>
          if \<not> finished then Inr False else commute_outer tableau_1 tableau_2 n_qubits is)"

definition check_tableau_entries_commute :: "tableau \<Rightarrow> tableau \<Rightarrow> error + bool" where
  "check_tableau_entries_commute tableau_1 tableau_2 =
     (let n_qubits = length tableau_1 div 2
      in commute_outer tableau_1 tableau_2 n_qubits [0..<n_qubits])"

text \<open>
  \<open>assert_tableaus_correspond_to_the_same_stabilizer_state\<close>.  The second assertion of
  the source is \<open>assert check_tableau_entries_commute\<close>: it tests the function object,
  which is always true in Python, and never calls the function on the tableaus.
  \<open>np.linalg.matrix_rank\<close> is the parameter \<open>matrix_rank\<close>.
\<close>

definition function_object_is_true :: bool where
  "function_object_is_true = True"

definition assert_tableaus_correspond_to_the_same_stabilizer_state ::
  "(tableau \<Rightarrow> nat) \<Rightarrow> tableau \<Rightarrow> tableau \<Rightarrow> error + unit" where
  "assert_tableaus_correspond_to_the_same_stabilizer_state matrix_rank tableau_1 tableau_2 =
     (if \<not> (shape tableau_1 = shape tableau_2) then Inl AssertionError
      else let n_qubits = length tableau_2 in
        if \<not> function_object_is_true then Inl AssertionError
        else if \<not> (matrix_rank tableau_1 = n_qubits) then Inl AssertionError
        else if \<not> (matrix_rank tableau_2 = n_qubits) then Inl AssertionError
        else Inr ())"

text \<open>
  An exact rank for evaluating the function on concrete tableaus: the booleans are read
  as 0 and 1 and the rows are eliminated column by column without fractions (a row \<open>r\<close>
  is replaced by \<open>hd p * r - hd r * p\<close> for the pivot row \<open>p\<close>).
\<close>

definition reduce_row :: "int list \<Rightarrow> int list \<Rightarrow> int list" where
  "reduce_row p r = map2 (\<lambda>a b. hd p * b - hd r * a) (tl p) (tl r)"

fun rank_columns :: "nat \<Rightarrow> int list list \<Rightarrow> nat" where
  "rank_columns 0 rows = 0"
| "rank_columns (Suc k) rows =
     (case filter (\<lambda>r. r \<noteq> [] \<and> hd r \<noteq> 0) rows of
        [] \<Rightarrow> rank_columns k (map tl rows)
      | p # _ \<Rightarrow> Suc (rank_columns k (map (reduce_row p) (remove1 p rows))))"

definition exact_rank :: "tableau \<Rightarrow> nat" where
  "exact_rank t =
     rank_columns (snd (shape t)) (map (map (\<lambda>b. if b then (1::int) else 0)) t)"

section \<open>Circuits\<close>

text \<open>
  The circuit objects of the quantum library as far as the functions below read them: a
  gate has a name and parameters, an operation is a gate on a list of qubit indices, and a
  circuit has its operations and a number of qubits.
\<close>

record 'p gate =
  name :: string
  params :: "'p list"

record 'p operation =
  gate :: "'p gate"
  qubit_indices :: "int list"

record 'p circuit =
  operations :: "'p operation list"
  n_qubits :: int





section \<open>Conversion to ICM form\<close>











text \<open>
  The ancilla indices that an operation on \<open>k\<close> qubits allocates when the counter is \<open>n\<close>,
  in the order of allocation, and the highest qubit index in use: among the qubits of the
  input circuit, the values of the dictionary and the gates emitted so far.
\<close>

definition ancillas :: "int \<Rightarrow> nat \<Rightarrow> int list" where
  "ancillas n k = map (\<lambda>j. n + 1 + int j) [0..<k]"


section \<open>The reference tableau from the stim simulator\<close>

text \<open>
  The methods of \<open>stim.TableauSimulator\<close> that \<open>get_target_tableau\<close> calls, each with the
  qubit indices it is called on.  The simulator itself belongs to the library: its initial
  state, the effect \<open>run\<close> of a call on a state and \<open>get_tableau_from_stim_simulator\<close> are
  parameters.
\<close>

datatype stim_call =
    Sim_x "int list"
  | Sim_y "int list"
  | Sim_z "int list"
  | Sim_cx "int list"
  | Sim_s_dag "int list"
  | Sim_s "int list"
  | Sim_sqrt_x "int list"
  | Sim_sqrt_x_dag "int list"
  | Sim_h "int list"
  | Sim_cz "int list"

fun target_loop :: "('sim \<Rightarrow> stim_call \<Rightarrow> 'sim) \<Rightarrow> 'sim \<Rightarrow> 'p operation list \<Rightarrow> error + 'sim" where
  "target_loop run sim [] = Inr sim"
| "target_loop run sim (oper # rest) =
     (if name (gate oper) = ''I'' then target_loop run sim rest
      else if name (gate oper) = ''X'' then target_loop run (run sim (Sim_x (qubit_indices oper))) rest
      else if name (gate oper) = ''Y'' then target_loop run (run sim (Sim_y (qubit_indices oper))) rest
      else if name (gate oper) = ''Z'' then target_loop run (run sim (Sim_z (qubit_indices oper))) rest
      else if name (gate oper) = ''CNOT'' then target_loop run (run sim (Sim_cx (qubit_indices oper))) rest
      else if name (gate oper) = ''S_Dagger'' then target_loop run (run sim (Sim_s_dag (qubit_indices oper))) rest
      else if name (gate oper) = ''S'' then target_loop run (run sim (Sim_s (qubit_indices oper))) rest
      else if name (gate oper) = ''SX'' then target_loop run (run sim (Sim_sqrt_x (qubit_indices oper))) rest
      else if name (gate oper) = ''SX_Dagger'' then target_loop run (run sim (Sim_sqrt_x_dag (qubit_indices oper))) rest
      else if name (gate oper) = ''H'' then target_loop run (run sim (Sim_h (qubit_indices oper))) rest
      else if name (gate oper) = ''CZ'' then target_loop run (run sim (Sim_cz (qubit_indices oper))) rest
      else Inl (ValueError (''Gate '' @ name (gate oper) @ '' not supported.'')))"

definition get_target_tableau ::
  "('sim \<Rightarrow> stim_call \<Rightarrow> 'sim) \<Rightarrow> 'sim \<Rightarrow> ('sim \<Rightarrow> 'tab) \<Rightarrow> 'p circuit \<Rightarrow> error + 'tab" where
  "get_target_tableau run new_simulator get_tableau_from_stim_simulator c =
     (case target_loop run new_simulator (operations c) of
        Inl e \<Rightarrow> Inl e
      | Inr sim \<Rightarrow> Inr (get_tableau_from_stim_simulator sim))"

text \<open>
  The table of the specification: the gate names with a simulator operation, and the
  operation for each.
\<close>

definition spec_stim_table :: "(string \<times> (int list \<Rightarrow> stim_call)) list" where
  "spec_stim_table =
     [(''X'', Sim_x), (''Y'', Sim_y), (''Z'', Sim_z), (''CNOT'', Sim_cx),
      (''S_Dagger'', Sim_s_dag), (''S'', Sim_s), (''SX'', Sim_sqrt_x),
      (''SX_Dagger'', Sim_sqrt_x_dag), (''H'', Sim_h), (''CZ'', Sim_cz)]"

definition spec_handled :: "'p operation \<Rightarrow> bool" where
  "spec_handled oper =
     (name (gate oper) = ''I'' \<or> name (gate oper) \<in> set (map fst spec_stim_table))"

definition spec_stim_calls :: "'p operation list \<Rightarrow> stim_call list" where
  "spec_stim_calls ops =
     map (\<lambda>oper. the (map_of spec_stim_table (name (gate oper))) (qubit_indices oper))
       (filter (\<lambda>oper. name (gate oper) \<noteq> ''I'') ops)"






section \<open>Single-factorized QPE resource estimates\<close>

text \<open>
  The results of the physical cost model and the resource record built from them.
  Floating-point numbers are only passed through and are given as reals;
  \<open>cost.duration.seconds\<close> is the field \<open>duration_seconds\<close> and
  \<open>magic_state_factory.details\<close> the field \<open>magic_state_factory_details\<close>.
\<close>

record cost_estimate =
  physical_qubit_count :: int
  duration_seconds :: int
  algorithm_failure_probability :: real

record algorithm_parameters =
  max_allocated_logical_qubits :: int
  logical_data_qubit_distance :: int
  magic_state_factory_details :: string

record open_fermion_resource_info =
  n_physical_qubits :: int
  n_logical_qubits :: int
  total_time_in_seconds :: int
  code_distance :: int
  logical_error_rate :: real
  decoder_info :: "unit option"
  widget_name :: string
  extra :: algorithm_parameters

definition openfermion_result_to_resource_info ::
  "cost_estimate \<Rightarrow> algorithm_parameters \<Rightarrow> open_fermion_resource_info" where
  "openfermion_result_to_resource_info cost algorithm_parameters =
     \<lparr>n_physical_qubits = physical_qubit_count cost,
      n_logical_qubits = max_allocated_logical_qubits algorithm_parameters,
      total_time_in_seconds = duration_seconds cost,
      code_distance = logical_data_qubit_distance algorithm_parameters,
      logical_error_rate = algorithm_failure_probability cost,
      decoder_info = None,
      widget_name = magic_state_factory_details algorithm_parameters,
      extra = algorithm_parameters\<rparr>"

text \<open>
  The library routines that the estimate calls.  They are parameters: the array type
  \<open>'a\<close> with \<open>shape[0]\<close>, \<open>np.transpose\<close> and \<open>np.allclose\<close>, the factorization and
  costing routines of \<open>openfermion.resource_estimates.sf\<close>, \<open>compute_lambda\<close> and
  \<open>cost_estimator\<close>.  A routine that can raise returns \<open>error + 'b\<close>.
\<close>

record ('a, 't) libraries =
  np_shape_0 :: "'a \<Rightarrow> int"
  np_transpose :: "'a \<Rightarrow> nat list \<Rightarrow> 'a"
  np_allclose :: "'a \<Rightarrow> 'a \<Rightarrow> bool"
  sf_factorize :: "'a \<Rightarrow> int \<Rightarrow> error + ('a \<times> 'a)"
  compute_lambda :: "'a \<Rightarrow> 'a \<Rightarrow> 'a \<Rightarrow> error + real"
  sf_compute_cost :: "int \<Rightarrow> real \<Rightarrow> real \<Rightarrow> int \<Rightarrow> real \<Rightarrow> int \<Rightarrow> error + (int \<times> int \<times> int)"
  cost_estimator :: "int \<Rightarrow> int \<Rightarrow> 't \<Rightarrow> real \<Rightarrow> real \<Rightarrow> error + (cost_estimate \<times> algorithm_parameters)"

text \<open>
  What the functions do besides returning: the calls into the costing libraries, with
  their arguments, and the lines printed, in the order in which they happen.  A call is
  recorded when it is made, whether or not it returns.
\<close>

datatype ('a, 't) event =
    Call_factorize 'a int
  | Call_compute_lambda 'a 'a 'a
  | Call_compute_cost int real real int real int
  | Call_cost_estimator int int 't real real
  | Print string int

definition get_single_factorized_qpe_toffoli_and_qubit_cost ::
  "('a, 't) libraries \<Rightarrow> 'a \<Rightarrow> 'a \<Rightarrow> int \<Rightarrow> real \<Rightarrow> real \<Rightarrow> ('a, 't) event list
     \<Rightarrow> (error + int \<times> int) \<times> ('a, 't) event list" where
  "get_single_factorized_qpe_toffoli_and_qubit_cost lib h1 eri rank
       allowable_phase_estimation_error bits_precision_state_prep trace =
     (let num_orb = np_shape_0 lib h1;
          num_spinorb = num_orb * 2;
          trace1 = trace @ [Call_factorize eri rank]
      in case sf_factorize lib eri rank of
           Inl e \<Rightarrow> (Inl e, trace1)
         | Inr (eri_rr, LR) \<Rightarrow>
      let trace2 = trace1 @ [Call_compute_lambda h1 eri_rr LR]
      in case compute_lambda lib h1 eri_rr LR of
           Inl e \<Rightarrow> (Inl e, trace2)
         | Inr lam \<Rightarrow>
      let trace3 = trace2 @ [Call_compute_cost num_spinorb lam allowable_phase_estimation_error
                           rank bits_precision_state_prep 20000]
      in case sf_compute_cost lib num_spinorb lam allowable_phase_estimation_error
                rank bits_precision_state_prep 20000 of
           Inl e \<Rightarrow> (Inl e, trace3)
         | Inr (stps1, _, _) \<Rightarrow>
      let trace4 = trace3 @ [Call_compute_cost num_spinorb lam allowable_phase_estimation_error
                           rank bits_precision_state_prep stps1]
      in case sf_compute_cost lib num_spinorb lam allowable_phase_estimation_error
                rank bits_precision_state_prep stps1 of
           Inl e \<Rightarrow> (Inl e, trace4)
         | Inr (_, sf_total_toffoli_cost, sf_logical_qubits) \<Rightarrow>
             (Inr (sf_total_toffoli_cost, sf_logical_qubits), trace4))"

definition symmetry_error :: error where
  "symmetry_error = ValueError ''ERI do not have (ij | kl) == (kl | ij) symmetry.''"

definition get_single_factorized_qpe_resource_estimate ::
  "('a, 't) libraries \<Rightarrow> 'a \<Rightarrow> 'a \<Rightarrow> int \<Rightarrow> 't \<Rightarrow> real \<Rightarrow> real \<Rightarrow> ('a, 't) event list
     \<Rightarrow> (error + open_fermion_resource_info) \<times> ('a, 't) event list" where
  "get_single_factorized_qpe_resource_estimate lib h1 eri rank surface_code_cycle_time
       allowable_phase_estimation_error bits_precision_state_prep trace =
     (if \<not> np_allclose lib (np_transpose lib eri [2, 3, 0, 1]) eri
      then (Inl symmetry_error, trace)
      else
        case get_single_factorized_qpe_toffoli_and_qubit_cost lib h1 eri rank
               allowable_phase_estimation_error bits_precision_state_prep trace of
          (Inl e, trace1) \<Rightarrow> (Inl e, trace1)
        | (Inr (sf_total_toffoli_cost, sf_logical_qubits), trace1) \<Rightarrow>
        let trace2 = trace1 @ [Print ''Number of Toffoli's is:'' sf_total_toffoli_cost,
                           Print ''Number of logical qubits is:'' sf_logical_qubits,
                           Call_cost_estimator sf_logical_qubits sf_total_toffoli_cost
                             surface_code_cycle_time (1 / 1000) 1]
        in case cost_estimator lib sf_logical_qubits sf_total_toffoli_cost
                  surface_code_cycle_time (1 / 1000) 1 of
             Inl e \<Rightarrow> (Inl e, trace2)
           | Inr (best_cost, best_params) \<Rightarrow>
               (Inr (openfermion_result_to_resource_info best_cost best_params), trace2))"

text \<open>
  Library routines for evaluating the functions: arrays are numbers, an array is
  symmetric when it is even, every routine returns, and \<open>compute_cost\<close> returns the
  steps plus one, the steps plus one hundred and the steps plus two hundred.
\<close>

definition example_libraries :: "(nat, nat) libraries" where
  "example_libraries =
     \<lparr>np_shape_0 = (\<lambda>h1. int h1),
      np_transpose = (\<lambda>eri axes. eri),
      np_allclose = (\<lambda>a b. even a \<and> a = b),
      sf_factorize = (\<lambda>eri rank. Inr (eri + 1, eri + 2)),
      compute_lambda = (\<lambda>h1 eri_rr LR. Inr 5),
      sf_compute_cost = (\<lambda>n lam dE L chi stps. Inr (stps + 1, stps + 100, stps + 200)),
      cost_estimator = (\<lambda>n_qubits n_toffoli cycle_time error_rate portion.
         Inr (\<lparr>physical_qubit_count = n_qubits, duration_seconds = n_toffoli,
                algorithm_failure_probability = error_rate\<rparr>,
              \<lparr>max_allocated_logical_qubits = n_qubits, logical_data_qubit_distance = 7,
                magic_state_factory_details = ''factory''\<rparr>))\<rparr>"

section \<open>The resource-estimation pipeline of the QASM example\<close>

record ('prog, 'budget) algorithm_implementation =
  program :: 'prog
  error_budget :: 'budget
  n_calls :: int

text \<open>
  Modelled from the spec: \<open>run_custom_resource_estimation_pipeline\<close> of
  \<open>benchq.resource_estimation.graph\<close> is not among the sources.  Following the
  specification's description of the pipeline, the transformers are applied to the
  program one after the other in the order of the list, and the estimator then turns the
  result into the resource figures.
\<close>

definition run_custom_resource_estimation_pipeline ::
  "('prog, 'budget) algorithm_implementation
     \<Rightarrow> (('prog, 'budget) algorithm_implementation \<Rightarrow> 'res)
     \<Rightarrow> ('prog \<Rightarrow> 'prog) list \<Rightarrow> 'res" where
  "run_custom_resource_estimation_pipeline algorithm_description estimator transformers =
     estimator (algorithm_description
       \<lparr>program := fold (\<lambda>transformer prog. transformer prog) transformers
                     (program algorithm_description)\<rparr>)"

text \<open>
  The names that \<open>examples/ex_1_from_qasm.py\<close> imports, as parameters, and its \<open>main\<close>,
  which returns what it prints last.
\<close>

record ('qc, 'circ, 'prog, 'budget, 'arch, 'res) benchq_api =
  from_qasm_file :: "string \<Rightarrow> 'qc"
  import_from_qiskit :: "'qc \<Rightarrow> 'circ"
  get_program_from_circuit :: "'circ \<Rightarrow> 'prog"
  from_even_split :: "real \<Rightarrow> 'budget"
  basic_sc_architecture_model :: 'arch
  graph_resource_estimator :: "'arch \<Rightarrow> ('prog, 'budget) algorithm_implementation \<Rightarrow> 'res"
  transpile_to_native_gates :: "'prog \<Rightarrow> 'prog"
  synthesize_clifford_t :: "'budget \<Rightarrow> 'prog \<Rightarrow> 'prog"
  create_big_graph_from_subcircuits :: "'prog \<Rightarrow> 'prog"

definition main :: "('qc, 'circ, 'prog, 'budget, 'arch, 'res) benchq_api \<Rightarrow> string \<Rightarrow> 'res" where
  "main api file_name =
     (let qiskit_circuit = from_qasm_file api file_name;
          quantum_program = get_program_from_circuit api (import_from_qiskit api qiskit_circuit);
          error_budget = from_even_split api (1 / 1000);
          algorithm_description =
            \<lparr>program = quantum_program, error_budget = error_budget, n_calls = 1\<rparr>;
          architecture_model = basic_sc_architecture_model api;
          gsc_resource_estimates =
            run_custom_resource_estimation_pipeline algorithm_description
              (graph_resource_estimator api architecture_model)
              [transpile_to_native_gates api,
               synthesize_clifford_t api error_budget,
               create_big_graph_from_subcircuits api]
      in gsc_resource_estimates)"

section \<open>Properties of the boolean dot product\<close>



lemma logical_and_commute: "logical_and x y = logical_and y x"
proof -
  have "map2 (\<lambda>a b. a \<and> b) x y = map2 (\<lambda>a b. a \<and> b) y x" if "length x = length y"
    using that by (induction x y rule: list_induct2) auto
  then show ?thesis
    by (auto simp: logical_and_def)
qed

lemma bool_dot_commute: "bool_dot x y = bool_dot y x"
  by (simp add: bool_dot_def logical_and_commute [of x y])

lemma bool_dot_error_by_lengths:
  assumes "bool_dot x y = Inl e" and "bool_dot x' y' = Inl e'"
    and "length x' = length y" and "length y' = length x"
  shows "e = e'"
  using assms
  by (auto simp: bool_dot_def logical_and_def split: if_splits list.splits)

lemma commutes_symmetric_general:
  assumes "length stab_1 = length stab_2"
  shows "commutes stab_1 stab_2 = commutes stab_2 stab_1"
proof -
  let ?n = "length stab_1 div 2"
  let ?c1 = "bool_dot (take ?n stab_1) (drop ?n stab_2)"
  let ?c2 = "bool_dot (drop ?n stab_1) (take ?n stab_2)"
  have a: "bool_dot (take ?n stab_2) (drop ?n stab_1) = ?c2"
    by (rule bool_dot_commute)
  have b: "bool_dot (drop ?n stab_2) (take ?n stab_1) = ?c1"
    by (rule bool_dot_commute)
  have e: "e1 = e2" if "?c1 = Inl e1" and "?c2 = Inl e2" for e1 e2
    by (rule bool_dot_error_by_lengths [OF that]) (simp_all add: assms)
  have l: "commutes stab_1 stab_2 =
      (case ?c1 of Inl e \<Rightarrow> Inl e
       | Inr comm1 \<Rightarrow> (case ?c2 of Inl e \<Rightarrow> Inl e | Inr comm2 \<Rightarrow> Inr (\<not> (comm1 \<noteq> comm2))))"
    by (simp add: commutes_def Let_def)
  have r: "commutes stab_2 stab_1 =
      (case ?c2 of Inl e \<Rightarrow> Inl e
       | Inr comm1 \<Rightarrow> (case ?c1 of Inl e \<Rightarrow> Inl e | Inr comm2 \<Rightarrow> Inr (\<not> (comm1 \<noteq> comm2))))"
    unfolding commutes_def Let_def assms [symmetric] a b by (rule refl)
  show ?thesis
    unfolding l r using e by (cases ?c1; cases ?c2) auto
qed



text \<open>
  Claim C10.  For symplectic Pauli vectors of the same even length the commutation test
  is symmetric: \<open>commutes(stab_1, stab_2)\<close> and \<open>commutes(stab_2, stab_1)\<close> give the same
  outcome (the same boolean, or the same exception when the vectors are empty).
\<close>

theorem commutes_symmetric:
  assumes "length stab_1 = length stab_2" and "even (length stab_1)"
  shows "commutes stab_1 stab_2 = commutes stab_2 stab_1"
  using assms(1) by (rule commutes_symmetric_general)

theorem commutes_symmetric_witness:
  "length [True, False] = length [False, True] \<and> even (length [True, False])
   \<and> commutes [True, False] [False, True] = Inr False
   \<and> commutes [False, True] [True, False] = Inr False"
  using commutes_symmetric [of "[True, False]" "[False, True]"]
  by (simp add: commutes_def bool_dot_def logical_and_def logical_xor_def)

section \<open>Properties of the tableau comparison\<close>

text \<open>
  The assertions that can fail are the comparison of the shapes and the two rank tests;
  the commutation check takes no part in the outcome.
\<close>

lemma assert_tableaus_raises_iff:
  "assert_tableaus_correspond_to_the_same_stabilizer_state matrix_rank tableau_1 tableau_2
     = Inl AssertionError
   \<longleftrightarrow> shape tableau_1 \<noteq> shape tableau_2
     \<or> matrix_rank tableau_1 \<noteq> length tableau_2
     \<or> matrix_rank tableau_2 \<noteq> length tableau_2"
  by (simp add: assert_tableaus_correspond_to_the_same_stabilizer_state_def
      function_object_is_true_def Let_def)

lemma anticommuting_rows_fail_the_check:
  "check_tableau_entries_commute
     [[True, False, False, False], [False, True, False, False]]
     [[False, False, True, False], [False, False, False, True]] = Inr False"
  by (simp add: check_tableau_entries_commute_def row_def commutes_def bool_dot_def
      logical_and_def logical_xor_def)

text \<open>
  Claim C3.  The claim says that the assertion function raises whenever the pairwise
  commutation check of \<open>check_tableau_entries_commute\<close> fails.  On the tableaus with rows
  \<open>X\<^sub>1, X\<^sub>2\<close> and \<open>Z\<^sub>1, Z\<^sub>2\<close> (equal shapes, both of rank 2) the check returns False, since
  \<open>X\<^sub>1\<close> and \<open>Z\<^sub>1\<close> anticommute, and the assertion function returns without raising.
\<close>

theorem assert_tableaus_accepts_anticommuting_tableaus:
  "check_tableau_entries_commute
     [[True, False, False, False], [False, True, False, False]]
     [[False, False, True, False], [False, False, False, True]] = Inr False
   \<and> commutes [True, False, False, False] [False, False, True, False] = Inr False
   \<and> shape [[True, False, False, False], [False, True, False, False]]
       = shape [[False, False, True, False], [False, False, False, True]]
   \<and> exact_rank [[True, False, False, False], [False, True, False, False]] = 2
   \<and> exact_rank [[False, False, True, False], [False, False, False, True]] = 2
   \<and> assert_tableaus_correspond_to_the_same_stabilizer_state exact_rank
       [[True, False, False, False], [False, True, False, False]]
       [[False, False, True, False], [False, False, False, True]] = Inr ()"
proof -
  have c: "commutes [True, False, False, False] [False, False, True, False] = Inr False"
    by (simp add: commutes_def bool_dot_def logical_and_def logical_xor_def)
  have s: "shape [[True, False, False, False], [False, True, False, False]]
       = shape [[False, False, True, False], [False, False, False, True]]"
    by (simp add: shape_def)
  have r1: "exact_rank [[True, False, False, False], [False, True, False, False]] = 2"
    by code_simp
  have r2: "exact_rank [[False, False, True, False], [False, False, False, True]] = 2"
    by code_simp
  have a: "assert_tableaus_correspond_to_the_same_stabilizer_state exact_rank
       [[True, False, False, False], [False, True, False, False]]
       [[False, False, True, False], [False, False, False, True]] = Inr ()"
    unfolding assert_tableaus_correspond_to_the_same_stabilizer_state_def
      function_object_is_true_def Let_def s r1 r2
    by simp
  from anticommuting_rows_fail_the_check c s r1 r2 a show ?thesis
    by (intro conjI)
qed

section \<open>Properties of the reference tableau\<close>

lemma target_loop_handled:
  "\<forall>oper \<in> set ops. spec_handled oper \<Longrightarrow>
   target_loop run sim ops = Inr (foldl run sim (spec_stim_calls ops))"
proof (induction ops arbitrary: sim)
  case Nil
  then show ?case by (simp add: spec_stim_calls_def)
next
  case (Cons oper ops)
  then have h: "spec_handled oper" and r: "\<forall>oper \<in> set ops. spec_handled oper"
    by simp_all
  have t: "spec_stim_calls (oper # ops) =
      (if name (gate oper) = ''I'' then []
       else [the (map_of spec_stim_table (name (gate oper))) (qubit_indices oper)])
      @ spec_stim_calls ops"
    by (simp add: spec_stim_calls_def)
  from h show ?case
    unfolding t target_loop.simps Cons.IH [OF r]
    by (auto simp: spec_handled_def spec_stim_table_def)
qed

lemma target_loop_skip_handled:
  "spec_handled oper \<Longrightarrow> \<exists>sim'. target_loop run sim (oper # rest) = target_loop run sim' rest"
  by (auto simp: spec_handled_def spec_stim_table_def)

lemma target_loop_stop_unhandled:
  "\<not> spec_handled oper \<Longrightarrow>
   target_loop run sim (oper # rest) = Inl (ValueError (''Gate '' @ name (gate oper) @ '' not supported.''))"
  by (simp add: spec_handled_def spec_stim_table_def)

lemma target_loop_unhandled:
  "\<not> (\<forall>oper \<in> set ops. spec_handled oper) \<Longrightarrow>
   target_loop run sim ops =
     Inl (ValueError (''Gate '' @ name (gate (hd (filter (\<lambda>oper. \<not> spec_handled oper) ops)))
            @ '' not supported.''))"
proof (induction ops arbitrary: sim)
  case Nil
  then show ?case by simp
next
  case (Cons oper ops)
  show ?case
  proof (cases "spec_handled oper")
    case True
    then obtain sim' where s: "target_loop run sim (oper # ops) = target_loop run sim' ops"
      using target_loop_skip_handled [OF True, of run sim ops] by auto
    from True Cons.prems have "\<not> (\<forall>oper \<in> set ops. spec_handled oper)"
      by simp
    from Cons.IH [OF this, of sim'] True show ?thesis
      unfolding s by simp
  next
    case False
    then show ?thesis
      unfolding target_loop_stop_unhandled [OF False] by simp
  qed
qed

text \<open>
  Claim C7.  \<open>get_target_tableau\<close> consumes the circuit gate by gate.  When every gate name
  is I or one of X, Y, Z, CNOT, S_Dagger, S, SX, SX_Dagger, H, CZ, it returns the tableau of
  the simulator after the corresponding simulator operations, in the order of the circuit
  and with the I gates skipped.  When the circuit has an operation with any other gate
  name it raises the ValueError that names the first such gate: no gate is dropped
  silently.
\<close>

theorem get_target_tableau_gate_by_gate:
  "get_target_tableau run new_simulator get_tableau_from_stim_simulator c =
     (if \<forall>oper \<in> set (operations c). spec_handled oper
      then Inr (get_tableau_from_stim_simulator
                  (foldl run new_simulator (spec_stim_calls (operations c))))
      else Inl (ValueError
                  (''Gate '' @ name (gate (hd (filter (\<lambda>oper. \<not> spec_handled oper) (operations c))))
                     @ '' not supported.'')))"
proof (cases "\<forall>oper \<in> set (operations c). spec_handled oper")
  case True
  then show ?thesis
    unfolding get_target_tableau_def target_loop_handled [OF True] by simp
next
  case False
  then show ?thesis
    unfolding get_target_tableau_def target_loop_unhandled [OF False] by simp
qed

theorem get_target_tableau_gate_by_gate_witness:
  "get_target_tableau (\<lambda>sim call. sim @ [call]) [] (\<lambda>sim. sim)
     \<lparr>operations =
        [\<lparr>gate = \<lparr>name = ''H'', params = []\<rparr>, qubit_indices = [0]\<rparr>,
         \<lparr>gate = \<lparr>name = ''I'', params = []\<rparr>, qubit_indices = [1]\<rparr>,
         \<lparr>gate = \<lparr>name = ''CNOT'', params = []\<rparr>, qubit_indices = [0, 1]\<rparr>],
      n_qubits = 2\<rparr>
     = (Inr [Sim_h [0], Sim_cx [0, 1]] :: error + stim_call list)
   \<and> get_target_tableau (\<lambda>sim call. sim @ [call]) [] (\<lambda>sim. sim)
     \<lparr>operations =
        [\<lparr>gate = \<lparr>name = ''H'', params = []\<rparr>, qubit_indices = [0]\<rparr>,
         \<lparr>gate = \<lparr>name = ''T'', params = []\<rparr>, qubit_indices = [0]\<rparr>,
         \<lparr>gate = \<lparr>name = ''X'', params = []\<rparr>, qubit_indices = [0]\<rparr>],
      n_qubits = 1\<rparr>
     = (Inl (ValueError ''Gate T not supported.'') :: error + stim_call list)"
  using get_target_tableau_gate_by_gate [of "\<lambda>sim call. sim @ [call]" "[]" "\<lambda>sim. sim"
      "\<lparr>operations =
        [\<lparr>gate = \<lparr>name = ''H'', params = []\<rparr>, qubit_indices = [0]\<rparr>,
         \<lparr>gate = \<lparr>name = ''I'', params = []\<rparr>, qubit_indices = [1]\<rparr>,
         \<lparr>gate = \<lparr>name = ''CNOT'', params = []\<rparr>, qubit_indices = [0, 1]\<rparr>],
      n_qubits = 2\<rparr>"]
    get_target_tableau_gate_by_gate [of "\<lambda>sim call. sim @ [call]" "[]" "\<lambda>sim. sim"
      "\<lparr>operations =
        [\<lparr>gate = \<lparr>name = ''H'', params = []\<rparr>, qubit_indices = [0]\<rparr>,
         \<lparr>gate = \<lparr>name = ''T'', params = []\<rparr>, qubit_indices = [0]\<rparr>,
         \<lparr>gate = \<lparr>name = ''X'', params = []\<rparr>, qubit_indices = [0]\<rparr>],
      n_qubits = 1\<rparr>"]
  by (simp add: spec_handled_def spec_stim_table_def spec_stim_calls_def)

section \<open>Properties of the conversion to ICM form\<close>



lemma length_ancillas: "length (ancillas n k) = k"
  by (simp add: ancillas_def)

lemma set_ancillas: "a \<in> set (ancillas n k) \<Longrightarrow> n < a \<and> a \<le> n + int k"
  by (auto simp: ancillas_def)























section \<open>Properties of the single-factorized QPE estimate\<close>

lemma cost_trace_extends:
  "\<exists>rest. snd (get_single_factorized_qpe_toffoli_and_qubit_cost lib h1 eri rank err chi trace)
      = trace @ Call_factorize eri rank # rest"
  by (auto simp: get_single_factorized_qpe_toffoli_and_qubit_cost_def Let_def
      split: sum.splits prod.splits)

lemma estimate_trace_extends:
  assumes "np_allclose lib (np_transpose lib eri [2, 3, 0, 1]) eri"
  shows "\<exists>rest. snd (get_single_factorized_qpe_resource_estimate lib h1 eri rank ct err chi trace)
      = trace @ Call_factorize eri rank # rest"
proof -
  obtain r t where c: "get_single_factorized_qpe_toffoli_and_qubit_cost lib h1 eri rank err chi trace = (r, t)"
    by (cases "get_single_factorized_qpe_toffoli_and_qubit_cost lib h1 eri rank err chi trace")
  from cost_trace_extends [of lib h1 eri rank err chi trace] c
  obtain rest where t: "t = trace @ Call_factorize eri rank # rest"
    by auto
  show ?thesis
    using assms
    by (auto simp: get_single_factorized_qpe_resource_estimate_def c t Let_def
        split: sum.splits prod.splits)
qed

text \<open>
  Claim C1.  \<open>get_single_factorized_qpe_resource_estimate\<close> raises its symmetry error,
  with nothing done before it (no call into the costing libraries and nothing printed),
  if and only if \<open>np.transpose(eri, (2, 3, 0, 1))\<close> is not close to \<open>eri\<close>.  The error is
  the outcome of the function: nothing catches it.  When the array is symmetric the first
  thing the function does is the call of the factorization, so every exception it raises
  then comes from a library after cost estimation has started.
\<close>

theorem symmetry_error_iff_not_symmetric:
  "(get_single_factorized_qpe_resource_estimate lib h1 eri rank surface_code_cycle_time
       allowable_phase_estimation_error bits_precision_state_prep trace
     = (Inl symmetry_error, trace))
   = (\<not> np_allclose lib (np_transpose lib eri [2, 3, 0, 1]) eri)"
proof (cases "np_allclose lib (np_transpose lib eri [2, 3, 0, 1]) eri")
  case True
  from estimate_trace_extends [OF True, of h1 rank surface_code_cycle_time
      allowable_phase_estimation_error bits_precision_state_prep trace]
  have "snd (get_single_factorized_qpe_resource_estimate lib h1 eri rank surface_code_cycle_time
       allowable_phase_estimation_error bits_precision_state_prep trace) \<noteq> trace"
    by auto
  with True show ?thesis
    by auto
next
  case False
  then show ?thesis
    by (simp add: get_single_factorized_qpe_resource_estimate_def)
qed

text \<open>
  Claim C2.  When the library calls return, \<open>get_single_factorized_qpe_toffoli_and_qubit_cost\<close>
  factorizes \<open>eri\<close> at the given rank, computes lambda from the factorization, calls
  \<open>sf.compute_cost\<close> with 20000 steps, calls it again with the steps that the first call
  returned, and returns the Toffoli count and the logical-qubit count of the second call,
  in that order.  These four are all its library calls.
\<close>

theorem two_pass_costing:
  assumes "sf_factorize lib eri rank = Inr (eri_rr, LR)"
    and "compute_lambda lib h1 eri_rr LR = Inr lam"
    and "sf_compute_cost lib (np_shape_0 lib h1 * 2) lam err rank chi 20000
           = Inr (stps1, toffoli1, qubits1)"
    and "sf_compute_cost lib (np_shape_0 lib h1 * 2) lam err rank chi stps1
           = Inr (stps2, toffoli2, qubits2)"
  shows "get_single_factorized_qpe_toffoli_and_qubit_cost lib h1 eri rank err chi trace =
     (Inr (toffoli2, qubits2),
      trace @ [Call_factorize eri rank,
               Call_compute_lambda h1 eri_rr LR,
               Call_compute_cost (np_shape_0 lib h1 * 2) lam err rank chi 20000,
               Call_compute_cost (np_shape_0 lib h1 * 2) lam err rank chi stps1])"
  by (simp add: get_single_factorized_qpe_toffoli_and_qubit_cost_def Let_def assms)

theorem two_pass_costing_witness:
  "get_single_factorized_qpe_toffoli_and_qubit_cost example_libraries 3 4 2 (1 / 1000) 10 [] =
     (Inr (20101, 20201),
      [Call_factorize 4 2, Call_compute_lambda 3 5 6,
       Call_compute_cost 6 5 (1 / 1000) 2 10 20000,
       Call_compute_cost 6 5 (1 / 1000) 2 10 20001])"
  using two_pass_costing [of example_libraries 4 2 5 6 3 5 "1 / 1000" 10 20001 20100 20200
      20002 20101 20201 "[]"]
  by (simp add: example_libraries_def)

section \<open>Properties of the QASM example\<close>

text \<open>
  Claim C5.  The pipeline of the example applies its stages in the order of the
  specification: the estimator receives the program after transpilation to native gates,
  then Clifford+T synthesis, then the construction of the big graph from subcircuits.
\<close>

theorem main_applies_stages_in_order:
  "main api file_name =
     graph_resource_estimator api (basic_sc_architecture_model api)
       \<lparr>program =
          create_big_graph_from_subcircuits api
            (synthesize_clifford_t api (from_even_split api (1 / 1000))
              (transpile_to_native_gates api
                (get_program_from_circuit api
                  (import_from_qiskit api (from_qasm_file api file_name))))),
        error_budget = from_even_split api (1 / 1000),
        n_calls = 1\<rparr>"
  by (simp add: main_def run_custom_resource_estimation_pipeline_def Let_def)


end
